theory Spec2Isabelle
  imports Main
begin

section \<open>The checkpoint converter \<open>scripts/convert_model.py\<close>\<close>

text \<open>
  The script loads a serialized checkpoint, unwraps it when it is a \<open>dict\<close>, switches
  the model to evaluation mode, draws a dummy input and calls the ONNX exporter. Everything
  it does beyond choosing the model and the arguments happens inside the torch library, so
  the library is a parameter of the model: a record of four operations, each of which may
  change the world and may raise. The script's own steps (the \<open>isinstance\<close> test, the
  item lookup, the arguments of each call, the \<open>print\<close>, the order of the steps) are
  written out. Every run also returns the list of calls it made, in order. Where a
  property depends on what the library writes, the library is taken as the specification
  describes it, and that description is a definition of its own.
\<close>

subsection \<open>Python values\<close>

type_synonym path = string

text \<open>
  What \<open>torch.load\<close> can hand back. \<open>PyDict\<close> is an instance of \<open>dict\<close> whose class
  has no \<open>__missing__\<close> method, such as \<open>dict\<close> itself or \<open>OrderedDict\<close> (entries by
  key, first entry of a key wins). \<open>PyDictMissing\<close> is an instance of a subclass of
  \<open>dict\<close> that has one, such as \<open>defaultdict\<close> with a factory or \<open>Counter\<close>: its second
  argument is what a lookup of an absent key returns. \<open>PyMapping\<close> is a key-value
  container whose class does not derive from \<open>dict\<close>, \<open>PyModule\<close> is a network (its name
  and its \<open>training\<close> flag), \<open>PyOpaque\<close> is any other object.
\<close>

datatype pyobj =
    PyDict "(string \<times> pyobj) list"
  | PyDictMissing "(string \<times> pyobj) list" pyobj
  | PyMapping "(string \<times> pyobj) list"
  | PyModule string bool
  | PyOpaque string

datatype tensor = Tensor (shape: "int list") (sample: nat)

datatype exn =
    KeyError string
  | TypeError string
  | AttributeError string
  | RuntimeError string
  | OSError string
  | SystemExit int

text \<open>\<open>isinstance(model, dict)\<close>\<close>

fun isinstance_dict :: "pyobj \<Rightarrow> bool" where
  "isinstance_dict (PyDict kvs) = True"
| "isinstance_dict (PyDictMissing kvs d) = True"
| "isinstance_dict _ = False"

text \<open>
  \<open>obj[key]\<close>: on a container the value stored under the key; for an absent key
  \<open>KeyError(key)\<close>, or what \<open>__missing__\<close> returns where the class has it. Other objects
  are not subscriptable.
\<close>

fun getitem :: "pyobj \<Rightarrow> string \<Rightarrow> exn + pyobj" where
  "getitem (PyDict kvs) key =
     (case map_of kvs key of None \<Rightarrow> Inl (KeyError key) | Some v \<Rightarrow> Inr v)"
| "getitem (PyDictMissing kvs d) key =
     (case map_of kvs key of None \<Rightarrow> Inr d | Some v \<Rightarrow> Inr v)"
| "getitem (PyMapping kvs) key =
     (case map_of kvs key of None \<Rightarrow> Inl (KeyError key) | Some v \<Rightarrow> Inr v)"
| "getitem obj key = Inl (TypeError ''not subscriptable'')"

subsection \<open>The world and the library\<close>

text \<open>
  The keyword arguments of the one \<open>torch.onnx.export\<close> call, with its three positional
  arguments. A dictionary literal is the list of its entries in source order.
\<close>

record export_args =
  ex_model :: pyobj
  ex_args :: tensor
  ex_f :: path
  opset_version :: int
  input_names :: "string list"
  output_names :: "string list"
  dynamic_axes :: "(string \<times> (int \<times> string) list) list"

datatype file_content = Pickled pyobj | OnnxGraph export_args | Bytes string

text \<open>
  Several paths can name one file (\<open>model.pt\<close> and \<open>./model.pt\<close>, a relative and an
  absolute path, a link). \<open>realpath\<close> gives the one name under which the world keeps the
  file a path names, and \<open>files\<close> is keyed by that name: two paths name the same file
  exactly when \<open>realpath\<close> agrees on them.
\<close>

record world =
  files :: "path \<rightharpoonup> file_content"
  realpath :: "path \<Rightarrow> path"
  stdout :: "string list"
  rng :: nat

definition file_at :: "world \<Rightarrow> path \<Rightarrow> file_content option" where
  "file_at w p = files w (realpath w p)"

datatype call =
    TorchLoad path string
  | ModuleEval pyobj
  | TorchRandn "int list"
  | OnnxExport export_args
  | Print string

text \<open>
  The library: \<open>torch.load(path, map_location=...)\<close>, the method \<open>eval()\<close> of the
  loaded object (the object is changed in place; the model returns its new value),
  \<open>torch.randn(*sizes)\<close> and \<open>torch.onnx.export\<close>.
\<close>

record torch =
  torch_load :: "path \<Rightarrow> string \<Rightarrow> world \<Rightarrow> (exn + pyobj) \<times> world"
  module_eval :: "pyobj \<Rightarrow> world \<Rightarrow> (exn + pyobj) \<times> world"
  torch_randn :: "int list \<Rightarrow> world \<Rightarrow> (exn + tensor) \<times> world"
  onnx_export :: "export_args \<Rightarrow> world \<Rightarrow> (exn + unit) \<times> world"

text \<open>The outcome of a run: the value or the exception, the world left, the calls made.\<close>

type_synonym 'a run = "(exn + 'a) \<times> world \<times> call list"

definition outcome :: "'a run \<Rightarrow> exn + 'a" where
  "outcome r = fst r"

definition world_of :: "'a run \<Rightarrow> world" where
  "world_of r = fst (snd r)"

definition calls_of :: "'a run \<Rightarrow> call list" where
  "calls_of r = snd (snd r)"

definition after_call :: "call \<Rightarrow> 'a run \<Rightarrow> 'a run" where
  "after_call c r = (outcome r, world_of r, c # calls_of r)"

text \<open>\<open>print(s)\<close>: one more line on standard output.\<close>

definition print :: "string \<Rightarrow> world \<Rightarrow> world" where
  "print s w = w\<lparr>stdout := stdout w @ [s]\<rparr>"

subsection \<open>\<open>convert_to_onnx\<close>\<close>

text \<open>
  Lines 20 to 40, from \<open>model.eval()\<close> to the \<open>print\<close>: what the function does with
  the model once line 18 has chosen it.
\<close>

definition export_model :: "torch \<Rightarrow> pyobj \<Rightarrow> path \<Rightarrow> int \<Rightarrow> world \<Rightarrow> unit run" where
  "export_model T model onnx_output_path img_size w1 =
     (case module_eval T model w1 of
        (Inl e, w2) \<Rightarrow> (Inl e, w2, [ModuleEval model])
      | (Inr model', w2) \<Rightarrow>
          (let sizes = [1, 3, img_size, img_size] in
           case torch_randn T sizes w2 of
             (Inl e, w3) \<Rightarrow> (Inl e, w3, [ModuleEval model, TorchRandn sizes])
           | (Inr dummy_input, w3) \<Rightarrow>
               (let a = \<lparr>ex_model = model', ex_args = dummy_input, ex_f = onnx_output_path,
                          opset_version = 12,
                          input_names = [''images''],
                          output_names = [''output''],
                          dynamic_axes = [(''images'', [(0, ''batch'')]),
                                          (''output'', [(0, ''batch'')])]\<rparr> in
                case onnx_export T a w3 of
                  (Inl e, w4) \<Rightarrow>
                    (Inl e, w4, [ModuleEval model, TorchRandn sizes, OnnxExport a])
                | (Inr u, w4) \<Rightarrow>
                    (let msg = ''Model converted successfully: '' @ onnx_output_path in
                     (Inr (), print msg w4,
                      [ModuleEval model, TorchRandn sizes, OnnxExport a, Print msg])))))"

text \<open>Lines 17 and 18, then the rest.\<close>

definition convert_to_onnx :: "torch \<Rightarrow> path \<Rightarrow> path \<Rightarrow> int \<Rightarrow> world \<Rightarrow> unit run" where
  "convert_to_onnx T pt_model_path onnx_output_path img_size w =
     after_call (TorchLoad pt_model_path ''cpu'')
       (case torch_load T pt_model_path ''cpu'' w of
          (Inl e, w1) \<Rightarrow> (Inl e, w1, [])
        | (Inr model, w1) \<Rightarrow>
            (case (if isinstance_dict model then getitem model ''model'' else Inr model) of
               Inl e \<Rightarrow> (Inl e, w1, [])
             | Inr model \<Rightarrow> export_model T model onnx_output_path img_size w1))"

text \<open>A call that leaves \<open>img_size\<close> out takes the default of the signature, 640.\<close>

definition convert_to_onnx_default :: "torch \<Rightarrow> path \<Rightarrow> path \<Rightarrow> world \<Rightarrow> unit run" where
  "convert_to_onnx_default T pt_model_path onnx_output_path w =
     convert_to_onnx T pt_model_path onnx_output_path 640 w"

subsection \<open>The command line\<close>

definition usage :: string where
  "usage = ''Usage: python convert_model.py <input.pt> <output.onnx>''"

text \<open>
  Lines 42 to 48. \<open>argv\<close> is \<open>sys.argv\<close>: the script's name, then the arguments.
  \<open>sys.exit(1)\<close> raises \<open>SystemExit(1)\<close>.
\<close>

definition main :: "torch \<Rightarrow> string list \<Rightarrow> world \<Rightarrow> unit run" where
  "main T argv w =
     (if length argv < 3
      then (Inl (SystemExit 1), print usage w, [Print usage])
      else convert_to_onnx_default T (argv ! 1) (argv ! 2) w)"

text \<open>
  The status the interpreter exits with: 0 when the script runs to its end, the code
  of a \<open>SystemExit\<close>, 1 after any other uncaught exception.
\<close>

fun exit_status :: "exn + unit \<Rightarrow> int" where
  "exit_status (Inr u) = 0"
| "exit_status (Inl (SystemExit n)) = n"
| "exit_status (Inl e) = 1"

subsection \<open>The library as the specification describes it\<close>

text \<open>
  Modelled from the spec: the torch library is not part of the repository; section 4.1
  says what each of its four operations does to the world. Step 1 deserializes the object
  at the checkpoint path, which reads; step 3 is a side effect on the model object that
  does not mutate the on-disk checkpoint; step 4 constructs a tensor from random draws;
  step 5 exports to the output path, the one file it may leave changed. So \<open>lib_load\<close>
  and \<open>lib_eval\<close> see the world and return a result only, \<open>lib_randn\<close> returns the new
  state of the generator as well, and \<open>lib_export\<close> returns what the file its target names
  holds afterwards (what it held before, when the exporter has not written).
\<close>

record library =
  lib_load :: "path \<Rightarrow> string \<Rightarrow> world \<Rightarrow> exn + pyobj"
  lib_eval :: "pyobj \<Rightarrow> world \<Rightarrow> exn + pyobj"
  lib_randn :: "int list \<Rightarrow> world \<Rightarrow> (exn + tensor) \<times> nat"
  lib_export :: "export_args \<Rightarrow> world \<Rightarrow> (exn + unit) \<times> file_content option"

definition as_torch :: "library \<Rightarrow> torch" where
  "as_torch L =
     \<lparr>torch_load = (\<lambda>p dev w. (lib_load L p dev w, w)),
      module_eval = (\<lambda>m w. (lib_eval L m w, w)),
      torch_randn = (\<lambda>sizes w. (fst (lib_randn L sizes w), w\<lparr>rng := snd (lib_randn L sizes w)\<rparr>)),
      onnx_export = (\<lambda>a w. (fst (lib_export L a w),
                              w\<lparr>files := (files w)(realpath w (ex_f a) := snd (lib_export L a w))\<rparr>))\<rparr>"

subsection \<open>A sample library\<close>

text \<open>
  One library of that kind, used to run the model on concrete inputs: loading
  reads a pickled object and fails on anything else, \<open>eval()\<close> exists on modules only and
  clears their training flag, \<open>randn\<close> draws from the generator, exporting a module writes
  the graph file, except that a module named \<open>unsupported\<close> makes the exporter raise
  after it has begun to write; exporting anything else fails.
\<close>

definition sample_load :: "path \<Rightarrow> string \<Rightarrow> world \<Rightarrow> exn + pyobj" where
  "sample_load p dev w =
     (case file_at w p of
        Some (Pickled obj) \<Rightarrow> Inr obj
      | Some f \<Rightarrow> Inl (RuntimeError ''unpickling'')
      | None \<Rightarrow> Inl (OSError p))"

definition sample_eval :: "pyobj \<Rightarrow> world \<Rightarrow> exn + pyobj" where
  "sample_eval m w =
     (case m of
        PyModule name training \<Rightarrow> Inr (PyModule name False)
      | _ \<Rightarrow> Inl (AttributeError ''eval''))"

definition sample_randn :: "int list \<Rightarrow> world \<Rightarrow> (exn + tensor) \<times> nat" where
  "sample_randn sizes w =
     (if \<exists>n \<in> set sizes. n < 0 then (Inl (RuntimeError ''negative dimension''), rng w)
      else (Inr (Tensor sizes (rng w)), Suc (rng w)))"

definition sample_export :: "export_args \<Rightarrow> world \<Rightarrow> (exn + unit) \<times> file_content option" where
  "sample_export a w =
     (case ex_model a of
        PyModule name training \<Rightarrow>
          (if name = ''unsupported''
           then (Inl (RuntimeError ''unsupported operator''), Some (Bytes ''truncated''))
           else (Inr (), Some (OnnxGraph a)))
      | _ \<Rightarrow> (Inl (RuntimeError ''export''), file_at w (ex_f a)))"

definition sample_library :: library where
  "sample_library = \<lparr>lib_load = sample_load, lib_eval = sample_eval,
                      lib_randn = sample_randn, lib_export = sample_export\<rparr>"

definition sample_torch :: torch where
  "sample_torch = as_torch sample_library"

definition net :: pyobj where
  "net = PyModule ''yolo'' True"

definition disk :: "(path \<times> file_content) list" where
  "disk = [(''model.pt'', Pickled net),
           (''ckpt.pt'', Pickled (PyDict [(''model'', net), (''optimizer'', PyOpaque ''state'')])),
           (''bad.pt'', Pickled (PyDict [(''optimizer'', PyOpaque ''state'')])),
           (''map.pt'', Pickled (PyMapping [(''model'', net)])),
           (''odd.pt'', Pickled (PyModule ''unsupported'' True)),
           (''state.pt'', Pickled (PyMapping [(''optimizer'', PyOpaque ''state'')])),
           (''default.pt'', Pickled (PyDictMissing [(''optimizer'', PyOpaque ''state'')] net))]"

text \<open>In the sample world a leading \<open>./\<close> is the one way to name a file twice.\<close>

definition sample_realpath :: "path \<Rightarrow> path" where
  "sample_realpath p = (if take 2 p = ''./'' then drop 2 p else p)"

definition w0 :: world where
  "w0 = \<lparr>files = map_of disk, realpath = sample_realpath, stdout = [], rng = 0\<rparr>"

subsection \<open>Shorthands\<close>

text \<open>Line 18, the arguments of the export call and the message of line 40.\<close>

abbreviation select_model :: "pyobj \<Rightarrow> exn + pyobj" where
  "select_model obj \<equiv> (if isinstance_dict obj then getitem obj ''model'' else Inr obj)"

abbreviation export_call :: "pyobj \<Rightarrow> tensor \<Rightarrow> path \<Rightarrow> export_args" where
  "export_call m t out \<equiv>
     \<lparr>ex_model = m, ex_args = t, ex_f = out, opset_version = 12,
      input_names = [''images''], output_names = [''output''],
      dynamic_axes = [(''images'', [(0, ''batch'')]), (''output'', [(0, ''batch'')])]\<rparr>"

abbreviation success_msg :: "path \<Rightarrow> string" where
  "success_msg out \<equiv> ''Model converted successfully: '' @ out"

section \<open>Properties\<close>

subsection \<open>How a run goes\<close>

lemma run_parts [simp]:
  "outcome (r, w, cs) = r" "world_of (r, w, cs) = w" "calls_of (r, w, cs) = cs"
  by (simp_all add: outcome_def world_of_def calls_of_def)

lemma after_call_parts [simp]:
  "outcome (after_call c r) = outcome r"
  "world_of (after_call c r) = world_of r"
  "calls_of (after_call c r) = c # calls_of r"
  by (simp_all add: after_call_def)


lemma convert_to_onnx_unfold:
  assumes "torch_load T pt ''cpu'' w = (Inr obj, w1)"
  shows "convert_to_onnx T pt out s w =
           after_call (TorchLoad pt ''cpu'')
             (case select_model obj of
                Inl e \<Rightarrow> (Inl e, w1, [])
              | Inr m \<Rightarrow> export_model T m out s w1)"
  using assms by (simp add: convert_to_onnx_def)

lemma export_model_eval_raises:
  "module_eval T m w1 = (Inl e, w2) \<Longrightarrow>
   export_model T m out s w1 = (Inl e, w2, [ModuleEval m])"
  by (simp add: export_model_def)

lemma export_model_randn_raises:
  "module_eval T m w1 = (Inr m', w2) \<Longrightarrow> torch_randn T [1, 3, s, s] w2 = (Inl e, w3) \<Longrightarrow>
   export_model T m out s w1 = (Inl e, w3, [ModuleEval m, TorchRandn [1, 3, s, s]])"
  by (simp add: export_model_def)

lemma export_model_export_raises:
  "module_eval T m w1 = (Inr m', w2) \<Longrightarrow> torch_randn T [1, 3, s, s] w2 = (Inr t, w3) \<Longrightarrow>
   onnx_export T (export_call m' t out) w3 = (Inl e, w4) \<Longrightarrow>
   export_model T m out s w1 =
     (Inl e, w4, [ModuleEval m, TorchRandn [1, 3, s, s], OnnxExport (export_call m' t out)])"
  by (simp add: export_model_def)

lemma export_model_returns:
  "module_eval T m w1 = (Inr m', w2) \<Longrightarrow> torch_randn T [1, 3, s, s] w2 = (Inr t, w3) \<Longrightarrow>
   onnx_export T (export_call m' t out) w3 = (Inr u, w4) \<Longrightarrow>
   export_model T m out s w1 =
     (Inr (), print (success_msg out) w4,
      [ModuleEval m, TorchRandn [1, 3, s, s], OnnxExport (export_call m' t out),
       Print (success_msg out)])"
  by (simp add: export_model_def Let_def)

text \<open>The five ways a run of lines 20 to 40 can go.\<close>

lemma export_model_cases:
  obtains (eval_raises) e w2 where "module_eval T m w1 = (Inl e, w2)"
  | (randn_raises) m' w2 e w3 where "module_eval T m w1 = (Inr m', w2)"
      "torch_randn T [1, 3, s, s] w2 = (Inl e, w3)"
  | (export_raises) m' w2 t w3 e w4 where "module_eval T m w1 = (Inr m', w2)"
      "torch_randn T [1, 3, s, s] w2 = (Inr t, w3)"
      "onnx_export T (export_call m' t out) w3 = (Inl e, w4)"
  | (returns) m' w2 t w3 w4 where "module_eval T m w1 = (Inr m', w2)"
      "torch_randn T [1, 3, s, s] w2 = (Inr t, w3)"
      "onnx_export T (export_call m' t out) w3 = (Inr (), w4)"
proof (cases "module_eval T m w1")
  case (Pair r2 w2)
  show ?thesis
  proof (cases r2)
    case (Inl e)
    with Pair eval_raises show ?thesis by simp
  next
    case (Inr m')
    show ?thesis
    proof (cases "torch_randn T [1, 3, s, s] w2")
      case P3: (Pair r3 w3)
      show ?thesis
      proof (cases r3)
        case (Inl e)
        with Pair Inr P3 randn_raises show ?thesis by simp
      next
        case I3: (Inr t)
        show ?thesis
        proof (cases "onnx_export T (export_call m' t out) w3")
          case P4: (Pair r4 w4)
          show ?thesis
          proof (cases r4)
            case (Inl e)
            with Pair Inr P3 I3 P4 export_raises show ?thesis by simp
          next
            case I4: (Inr u)
            with Pair Inr P3 I3 P4 returns show ?thesis by simp
          qed
        qed
      qed
    qed
  qed
qed


lemma convert_load_raises:
  "torch_load T pt ''cpu'' w = (Inl e, w1) \<Longrightarrow>
   convert_to_onnx T pt out s w = (Inl e, w1, [TorchLoad pt ''cpu''])"
  by (simp add: convert_to_onnx_def after_call_def)

lemma convert_lookup_raises:
  "torch_load T pt ''cpu'' w = (Inr obj, w1) \<Longrightarrow> select_model obj = Inl e \<Longrightarrow>
   convert_to_onnx T pt out s w = (Inl e, w1, [TorchLoad pt ''cpu''])"
  by (simp add: convert_to_onnx_unfold after_call_def)

lemma convert_eval_raises:
  "torch_load T pt ''cpu'' w = (Inr obj, w1) \<Longrightarrow> select_model obj = Inr m \<Longrightarrow>
   module_eval T m w1 = (Inl e, w2) \<Longrightarrow>
   convert_to_onnx T pt out s w = (Inl e, w2, [TorchLoad pt ''cpu'', ModuleEval m])"
  by (simp add: convert_to_onnx_unfold export_model_eval_raises after_call_def)

lemma convert_randn_raises:
  "torch_load T pt ''cpu'' w = (Inr obj, w1) \<Longrightarrow> select_model obj = Inr m \<Longrightarrow>
   module_eval T m w1 = (Inr m', w2) \<Longrightarrow> torch_randn T [1, 3, s, s] w2 = (Inl e, w3) \<Longrightarrow>
   convert_to_onnx T pt out s w =
     (Inl e, w3, [TorchLoad pt ''cpu'', ModuleEval m, TorchRandn [1, 3, s, s]])"
  by (simp add: convert_to_onnx_unfold export_model_randn_raises after_call_def)

lemma convert_export_raises:
  "torch_load T pt ''cpu'' w = (Inr obj, w1) \<Longrightarrow> select_model obj = Inr m \<Longrightarrow>
   module_eval T m w1 = (Inr m', w2) \<Longrightarrow> torch_randn T [1, 3, s, s] w2 = (Inr t, w3) \<Longrightarrow>
   onnx_export T (export_call m' t out) w3 = (Inl e, w4) \<Longrightarrow>
   convert_to_onnx T pt out s w =
     (Inl e, w4, [TorchLoad pt ''cpu'', ModuleEval m, TorchRandn [1, 3, s, s],
                  OnnxExport (export_call m' t out)])"
  by (simp add: convert_to_onnx_unfold export_model_export_raises after_call_def)

lemma convert_returns:
  "torch_load T pt ''cpu'' w = (Inr obj, w1) \<Longrightarrow> select_model obj = Inr m \<Longrightarrow>
   module_eval T m w1 = (Inr m', w2) \<Longrightarrow> torch_randn T [1, 3, s, s] w2 = (Inr t, w3) \<Longrightarrow>
   onnx_export T (export_call m' t out) w3 = (Inr u, w4) \<Longrightarrow>
   convert_to_onnx T pt out s w =
     (Inr (), print (success_msg out) w4,
      [TorchLoad pt ''cpu'', ModuleEval m, TorchRandn [1, 3, s, s],
       OnnxExport (export_call m' t out), Print (success_msg out)])"
  by (simp add: convert_to_onnx_unfold export_model_returns after_call_def)

text \<open>The six ways a run of the whole function can go.\<close>

lemma convert_to_onnx_cases:
  obtains (load_fails) e w1 where "torch_load T pt ''cpu'' w = (Inl e, w1)"
  | (lookup_fails) obj w1 e where "torch_load T pt ''cpu'' w = (Inr obj, w1)"
      "select_model obj = Inl e"
  | (eval_fails) obj w1 m e w2 where "torch_load T pt ''cpu'' w = (Inr obj, w1)"
      "select_model obj = Inr m" "module_eval T m w1 = (Inl e, w2)"
  | (randn_fails) obj w1 m m' w2 e w3 where "torch_load T pt ''cpu'' w = (Inr obj, w1)"
      "select_model obj = Inr m" "module_eval T m w1 = (Inr m', w2)"
      "torch_randn T [1, 3, s, s] w2 = (Inl e, w3)"
  | (export_fails) obj w1 m m' w2 t w3 e w4 where "torch_load T pt ''cpu'' w = (Inr obj, w1)"
      "select_model obj = Inr m" "module_eval T m w1 = (Inr m', w2)"
      "torch_randn T [1, 3, s, s] w2 = (Inr t, w3)"
      "onnx_export T (export_call m' t out) w3 = (Inl e, w4)"
  | (completes) obj w1 m m' w2 t w3 w4 where "torch_load T pt ''cpu'' w = (Inr obj, w1)"
      "select_model obj = Inr m" "module_eval T m w1 = (Inr m', w2)"
      "torch_randn T [1, 3, s, s] w2 = (Inr t, w3)"
      "onnx_export T (export_call m' t out) w3 = (Inr (), w4)"
proof (cases "torch_load T pt ''cpu'' w")
  case (Pair r1 w1)
  show ?thesis
  proof (cases r1)
    case (Inl e)
    with Pair have "torch_load T pt ''cpu'' w = (Inl e, w1)" by simp
    then show ?thesis by (rule load_fails)
  next
    case (Inr obj)
    with Pair have ld: "torch_load T pt ''cpu'' w = (Inr obj, w1)" by simp
    show ?thesis
    proof (cases "select_model obj")
      case (Inl e)
      with ld show ?thesis by (rule lookup_fails)
    next
      case sel: (Inr m)
      show ?thesis
      proof (cases rule: export_model_cases
          [where T = T and m = m and ?w1.0 = w1 and s = s and out = out])
        case (eval_raises e w2)
        with ld sel show ?thesis by (rule eval_fails)
      next
        case (randn_raises m' w2 e w3)
        from ld sel this show ?thesis by (rule randn_fails)
      next
        case (export_raises m' w2 t w3 e w4)
        from ld sel this show ?thesis by (rule export_fails)
      next
        case (returns m' w2 t w3 w4)
        from ld sel this show ?thesis by (rule completes)
      qed
    qed
  qed
qed


lemma run_collapse: "r = (outcome r, world_of r, calls_of r)"
  by (simp add: outcome_def world_of_def calls_of_def)

lemma as_torch_simps [simp]:
  "torch_load (as_torch L) p dev w = (lib_load L p dev w, w)"
  "module_eval (as_torch L) m w = (lib_eval L m w, w)"
  "torch_randn (as_torch L) sizes w =
     (fst (lib_randn L sizes w), w\<lparr>rng := snd (lib_randn L sizes w)\<rparr>)"
  "onnx_export (as_torch L) a w =
     (fst (lib_export L a w),
      w\<lparr>files := (files w)(realpath w (ex_f a) := snd (lib_export L a w))\<rparr>)"
  by (simp_all add: as_torch_def)

subsection \<open>Runs of the sample library\<close>


lemma sample_run_bare:
  "convert_to_onnx sample_torch ''model.pt'' out 640 w0 =
     (Inr (),
      \<lparr>files = (map_of disk)(sample_realpath out \<mapsto>
                  OnnxGraph (export_call (PyModule ''yolo'' False)
                    (Tensor [1, 3, 640, 640] 0) out)),
       realpath = sample_realpath,
       stdout = [success_msg out], rng = 1\<rparr>,
      [TorchLoad ''model.pt'' ''cpu'', ModuleEval net, TorchRandn [1, 3, 640, 640],
       OnnxExport (export_call (PyModule ''yolo'' False) (Tensor [1, 3, 640, 640] 0) out),
       Print (success_msg out)])"
  by (simp add: convert_to_onnx_def export_model_def sample_torch_def sample_library_def
      sample_load_def sample_eval_def sample_randn_def sample_export_def file_at_def
      w0_def disk_def net_def Let_def after_call_def print_def sample_realpath_def [of "''model.pt''"])

lemma sample_load_file:
  "map_of disk (sample_realpath p) = Some (Pickled obj) \<Longrightarrow>
   torch_load sample_torch p ''cpu'' w0 = (Inr obj, w0)"
  by (simp add: sample_torch_def sample_library_def sample_load_def file_at_def w0_def)

lemma sample_load_bad:
  "torch_load sample_torch ''bad.pt'' ''cpu'' w0 =
     (Inr (PyDict [(''optimizer'', PyOpaque ''state'')]), w0)"
  by (rule sample_load_file) (simp add: disk_def sample_realpath_def)









lemma sample_run_bad:
  "convert_to_onnx sample_torch ''bad.pt'' out s w0 =
     (Inl (KeyError ''model''), w0, [TorchLoad ''bad.pt'' ''cpu''])"
  by (rule convert_lookup_raises [OF sample_load_bad]) simp




lemma sample_run_odd:
  "convert_to_onnx sample_torch ''odd.pt'' ''out.onnx'' 640 w0 =
     (Inl (RuntimeError ''unsupported operator''),
      \<lparr>files = (map_of disk)(''out.onnx'' \<mapsto> Bytes ''truncated''),
       realpath = sample_realpath, stdout = [], rng = 1\<rparr>,
      [TorchLoad ''odd.pt'' ''cpu'', ModuleEval (PyModule ''unsupported'' True),
       TorchRandn [1, 3, 640, 640],
       OnnxExport (export_call (PyModule ''unsupported'' False) (Tensor [1, 3, 640, 640] 0)
         ''out.onnx'')])"
  by (simp add: convert_to_onnx_def export_model_def sample_torch_def sample_library_def
      sample_load_def sample_eval_def sample_randn_def sample_export_def file_at_def
      w0_def disk_def Let_def after_call_def sample_realpath_def)

lemma sample_load_absent:
  "lib_load sample_library ''none.pt'' ''cpu'' w0 = Inl (OSError ''none.pt'')"
  by (simp add: sample_library_def sample_load_def file_at_def w0_def disk_def
      sample_realpath_def)

lemma sample_lib_load_model:
  "lib_load sample_library ''model.pt'' ''cpu'' w0 = Inr net"
  by (simp add: sample_library_def sample_load_def file_at_def w0_def disk_def
      sample_realpath_def)

subsection \<open>Choosing the model\<close>




subsection \<open>The export call\<close>

text \<open>
  Claim C2. A run that succeeds has applied the exporter once, after the load, the
  choice of the model, \<open>eval()\<close> and \<open>randn\<close> succeeded, and the arguments of that
  application are the model in evaluation mode, the dummy input, the output path and
  exactly the options \<open>opset_version\<close> 12, the one input name \<open>images\<close>, the one output
  name \<open>output\<close>, and \<open>dynamic_axes\<close> giving axis 0 of \<open>images\<close> and of \<open>output\<close> the
  name \<open>batch\<close>, which marks it dynamic. The world the run leaves is the one that
  application returned, with the confirmation line printed.
\<close>

theorem export_call_options:
  assumes "outcome (convert_to_onnx T pt out s w) = Inr ()"
  shows "\<exists>obj w1 m m' w2 t w3 w4 a.
           a = \<lparr>ex_model = m', ex_args = t, ex_f = out,
                 opset_version = 12,
                 input_names = [''images''],
                 output_names = [''output''],
                 dynamic_axes = [(''images'', [(0, ''batch'')]),
                                 (''output'', [(0, ''batch'')])]\<rparr>
         \<and> torch_load T pt ''cpu'' w = (Inr obj, w1)
         \<and> select_model obj = Inr m
         \<and> module_eval T m w1 = (Inr m', w2)
         \<and> torch_randn T [1, 3, s, s] w2 = (Inr t, w3)
         \<and> onnx_export T a w3 = (Inr (), w4)
         \<and> convert_to_onnx T pt out s w =
             (Inr (), print (''Model converted successfully: '' @ out) w4,
              [TorchLoad pt ''cpu'', ModuleEval m, TorchRandn [1, 3, s, s], OnnxExport a,
               Print (''Model converted successfully: '' @ out)])
         \<and> map_of (dynamic_axes a) ''images'' = Some [(0, ''batch'')]
         \<and> map_of (dynamic_axes a) ''output'' = Some [(0, ''batch'')]"
proof (cases rule: convert_to_onnx_cases
    [where T = T and pt = pt and w = w and s = s and out = out])
  case (load_fails e w1)
  from convert_load_raises [OF this, of out s] assms show ?thesis by simp
next
  case (lookup_fails obj w1 e)
  from convert_lookup_raises [OF this, of out s] assms show ?thesis by simp
next
  case (eval_fails obj w1 m e w2)
  from convert_eval_raises [OF this, of out s] assms show ?thesis by simp
next
  case (randn_fails obj w1 m m' w2 e w3)
  from convert_randn_raises [OF this, of out] assms show ?thesis by simp
next
  case (export_fails obj w1 m m' w2 t w3 e w4)
  from convert_export_raises [OF this] assms show ?thesis by simp
next
  case (completes obj w1 m m' w2 t w3 w4)
  have "export_call m' t out = export_call m' t out
      \<and> torch_load T pt ''cpu'' w = (Inr obj, w1)
      \<and> select_model obj = Inr m
      \<and> module_eval T m w1 = (Inr m', w2)
      \<and> torch_randn T [1, 3, s, s] w2 = (Inr t, w3)
      \<and> onnx_export T (export_call m' t out) w3 = (Inr (), w4)
      \<and> convert_to_onnx T pt out s w =
          (Inr (), print (success_msg out) w4,
           [TorchLoad pt ''cpu'', ModuleEval m, TorchRandn [1, 3, s, s],
            OnnxExport (export_call m' t out), Print (success_msg out)])
      \<and> map_of (dynamic_axes (export_call m' t out)) ''images'' = Some [(0, ''batch'')]
      \<and> map_of (dynamic_axes (export_call m' t out)) ''output'' = Some [(0, ''batch'')]"
    using completes convert_returns [OF completes] by simp
  then show ?thesis by (intro exI)
qed

theorem export_call_options_witness:
  "outcome (convert_to_onnx sample_torch ''model.pt'' ''model.onnx'' 640 w0) = Inr ()
   \<and> (\<exists>obj w1 m m' w2 t w3 w4 a.
        a = \<lparr>ex_model = m', ex_args = t, ex_f = ''model.onnx'',
              opset_version = 12,
              input_names = [''images''],
              output_names = [''output''],
              dynamic_axes = [(''images'', [(0, ''batch'')]),
                              (''output'', [(0, ''batch'')])]\<rparr>
      \<and> torch_load sample_torch ''model.pt'' ''cpu'' w0 = (Inr obj, w1)
      \<and> select_model obj = Inr m
      \<and> module_eval sample_torch m w1 = (Inr m', w2)
      \<and> torch_randn sample_torch [1, 3, 640, 640] w2 = (Inr t, w3)
      \<and> onnx_export sample_torch a w3 = (Inr (), w4)
      \<and> convert_to_onnx sample_torch ''model.pt'' ''model.onnx'' 640 w0 =
          (Inr (), print (''Model converted successfully: '' @ ''model.onnx'') w4,
           [TorchLoad ''model.pt'' ''cpu'', ModuleEval m, TorchRandn [1, 3, 640, 640],
            OnnxExport a, Print (''Model converted successfully: '' @ ''model.onnx'')])
      \<and> map_of (dynamic_axes a) ''images'' = Some [(0, ''batch'')]
      \<and> map_of (dynamic_axes a) ''output'' = Some [(0, ''batch'')])"
proof -
  have ok: "outcome (convert_to_onnx sample_torch ''model.pt'' ''model.onnx'' 640 w0) = Inr ()"
    by (simp add: sample_run_bare)
  from ok export_call_options [OF ok] show ?thesis by (rule conjI)
qed

subsection \<open>A dictionary without the key\<close>




subsection \<open>The dummy input\<close>



subsection \<open>Too few arguments\<close>

text \<open>
  Claim C5. With fewer than two arguments after the script's name, the program prints
  the usage line on standard output and exits with status 1; it calls nothing of the
  library, so it reads and writes no file.
\<close>

theorem usage_on_missing_arguments:
  assumes "length argv < 3"
  shows "main T argv w =
           (Inl (SystemExit 1),
            w\<lparr>stdout := stdout w @ [''Usage: python convert_model.py <input.pt> <output.onnx>'']\<rparr>,
            [Print ''Usage: python convert_model.py <input.pt> <output.onnx>''])
       \<and> exit_status (outcome (main T argv w)) = 1
       \<and> files (world_of (main T argv w)) = files w"
  using assms by (simp add: main_def usage_def print_def)

theorem usage_on_missing_arguments_witness:
  "main sample_torch [''convert_model.py'', ''model.pt''] w0 =
     (Inl (SystemExit 1),
      w0\<lparr>stdout := stdout w0 @ [''Usage: python convert_model.py <input.pt> <output.onnx>'']\<rparr>,
      [Print ''Usage: python convert_model.py <input.pt> <output.onnx>''])
   \<and> exit_status (outcome (main sample_torch [''convert_model.py'', ''model.pt''] w0)) = 1
   \<and> files (world_of (main sample_torch [''convert_model.py'', ''model.pt''] w0)) = files w0"
proof -
  have "length [''convert_model.py'', ''model.pt''] < 3" by simp
  then show ?thesis by (rule usage_on_missing_arguments)
qed

subsection \<open>Containers that are not dictionaries\<close>



subsection \<open>More than two arguments\<close>

text \<open>
  Claim C10. With more than two arguments after the script's name, the program converts
  with the first two and image size 640; the further arguments change nothing.
\<close>

theorem extra_arguments_ignored:
  assumes "3 < length argv"
  shows "main T argv w = convert_to_onnx T (argv ! 1) (argv ! 2) 640 w
       \<and> main T argv w = main T (take 3 argv) w"
  using assms by (simp add: main_def convert_to_onnx_default_def)

theorem extra_arguments_ignored_witness:
  "main sample_torch [''convert_model.py'', ''model.pt'', ''model.onnx'', ''320''] w0 =
     convert_to_onnx sample_torch ''model.pt'' ''model.onnx'' 640 w0
   \<and> main sample_torch [''convert_model.py'', ''model.pt'', ''model.onnx'', ''320''] w0 =
     main sample_torch [''convert_model.py'', ''model.pt'', ''model.onnx''] w0"
proof -
  let ?argv = "[''convert_model.py'', ''model.pt'', ''model.onnx'', ''320'']"
  have len: "3 < length ?argv" by simp
  have args: "?argv ! 1 = ''model.pt''" "?argv ! 2 = ''model.onnx''"
    "take 3 ?argv = [''convert_model.py'', ''model.pt'', ''model.onnx'']"
    by simp_all
  show ?thesis
    by (rule extra_arguments_ignored [OF len, of sample_torch w0, unfolded args])
qed

subsection \<open>The confirmation message\<close>

text \<open>
  Claim C6. A run that returns (the value is \<open>None\<close>) has printed exactly one line,
  \<open>Model converted successfully: \<close> followed by the output path, as its last step and
  after the export call returned: the world it leaves is the one the exporter left with
  that line added to standard output. A run that ends with an exception has printed
  nothing: it made no \<open>print\<close> call, and the world it leaves, standard output included,
  is the very world the step that raised left behind.
\<close>

theorem confirmation_message:
  assumes "convert_to_onnx T pt out s w = (r, w', cs)"
  shows "(r = Inr () \<longrightarrow>
            (\<exists>m a w3 w4.
               cs = [TorchLoad pt ''cpu'', ModuleEval m, TorchRandn [1, 3, s, s], OnnxExport a,
                     Print (''Model converted successfully: '' @ out)]
             \<and> onnx_export T a w3 = (Inr (), w4)
             \<and> w' = w4\<lparr>stdout := stdout w4 @ [''Model converted successfully: '' @ out]\<rparr>))
       \<and> (r \<noteq> Inr () \<longrightarrow>
            (\<forall>msg. Print msg \<notin> set cs)
          \<and> (\<exists>e. r = Inl e
               \<and> (torch_load T pt ''cpu'' w = (Inl e, w')
                  \<or> (\<exists>obj. torch_load T pt ''cpu'' w = (Inr obj, w') \<and> select_model obj = Inl e)
                  \<or> (\<exists>obj w1 m. torch_load T pt ''cpu'' w = (Inr obj, w1)
                        \<and> select_model obj = Inr m
                        \<and> module_eval T m w1 = (Inl e, w'))
                  \<or> (\<exists>obj w1 m m' w2. torch_load T pt ''cpu'' w = (Inr obj, w1)
                        \<and> select_model obj = Inr m
                        \<and> module_eval T m w1 = (Inr m', w2)
                        \<and> torch_randn T [1, 3, s, s] w2 = (Inl e, w'))
                  \<or> (\<exists>obj w1 m m' w2 t w3. torch_load T pt ''cpu'' w = (Inr obj, w1)
                        \<and> select_model obj = Inr m
                        \<and> module_eval T m w1 = (Inr m', w2)
                        \<and> torch_randn T [1, 3, s, s] w2 = (Inr t, w3)
                        \<and> onnx_export T (export_call m' t out) w3 = (Inl e, w')))))"
proof (cases rule: convert_to_onnx_cases [where T = T and pt = pt and w = w and s = s and out = out])
  case (load_fails e w1)
  from convert_load_raises [OF this, of out s] assms
  have "r = Inl e" "w1 = w'" "cs = [TorchLoad pt ''cpu'']" by simp_all
  with load_fails show ?thesis by simp
next
  case (lookup_fails obj w1 e)
  from convert_lookup_raises [OF this, of out s] assms
  have "r = Inl e" "w1 = w'" "cs = [TorchLoad pt ''cpu'']" by simp_all
  with lookup_fails show ?thesis by simp
next
  case (eval_fails obj w1 m e w2)
  from convert_eval_raises [OF this, of out s] assms
  have "r = Inl e" "w2 = w'" "cs = [TorchLoad pt ''cpu'', ModuleEval m]" by simp_all
  with eval_fails show ?thesis by simp
next
  case (randn_fails obj w1 m m' w2 e w3)
  from convert_randn_raises [OF this, of out] assms
  have "r = Inl e" "w3 = w'"
    "cs = [TorchLoad pt ''cpu'', ModuleEval m, TorchRandn [1, 3, s, s]]" by simp_all
  with randn_fails show ?thesis by simp
next
  case (export_fails obj w1 m m' w2 t w3 e w4)
  from convert_export_raises [OF this] assms
  have "r = Inl e" "w4 = w'"
    "cs = [TorchLoad pt ''cpu'', ModuleEval m, TorchRandn [1, 3, s, s],
           OnnxExport (export_call m' t out)]" by simp_all
  with export_fails show ?thesis by simp
next
  case (completes obj w1 m m' w2 t w3 w4)
  from convert_returns [OF this] assms
  have "r = Inr ()" and "w' = print (success_msg out) w4"
    and "cs = [TorchLoad pt ''cpu'', ModuleEval m, TorchRandn [1, 3, s, s],
       OnnxExport (export_call m' t out), Print (success_msg out)]"
    by simp_all
  with completes(5) show ?thesis
    by (auto simp: print_def)
qed

theorem confirmation_message_witness:
  "(\<exists>m a w3 w4.
      calls_of (convert_to_onnx sample_torch ''model.pt'' ''model.onnx'' 640 w0) =
        [TorchLoad ''model.pt'' ''cpu'', ModuleEval m, TorchRandn [1, 3, 640, 640], OnnxExport a,
         Print ''Model converted successfully: model.onnx'']
    \<and> onnx_export sample_torch a w3 = (Inr (), w4)
    \<and> world_of (convert_to_onnx sample_torch ''model.pt'' ''model.onnx'' 640 w0) =
        w4\<lparr>stdout := stdout w4 @ [''Model converted successfully: model.onnx'']\<rparr>)
   \<and> (\<forall>msg. Print msg \<notin>
         set (calls_of (convert_to_onnx sample_torch ''bad.pt'' ''out.onnx'' 640 w0)))
   \<and> stdout (world_of (convert_to_onnx sample_torch ''odd.pt'' ''out.onnx'' 640 w0)) = []"
proof -
  have msg: "''Model converted successfully: '' @ ''model.onnx'' =
      ''Model converted successfully: model.onnx''"
    by simp
  have good: "outcome (convert_to_onnx sample_torch ''model.pt'' ''model.onnx'' 640 w0) = Inr ()"
    by (simp add: sample_run_bare)
  have bad: "outcome (convert_to_onnx sample_torch ''bad.pt'' ''out.onnx'' 640 w0) \<noteq> Inr ()"
    by (simp add: sample_run_bad)
  note printed = confirmation_message [OF run_collapse, THEN conjunct1, rule_format, OF good,
      unfolded msg]
  note silent = confirmation_message [OF run_collapse, THEN conjunct2, THEN mp, OF bad,
      THEN conjunct1]
  have quiet: "stdout (world_of (convert_to_onnx sample_torch ''odd.pt'' ''out.onnx'' 640 w0)) = []"
    by (simp add: sample_run_odd)
  from printed silent quiet show ?thesis by (intro conjI)
qed

subsection \<open>Exceptions\<close>

text \<open>
  Claim C7. The function catches nothing. It ends with exception \<open>e\<close>, world \<open>w'\<close>
  and calls \<open>cs\<close> exactly when one of its steps (the load, the item lookup, \<open>eval()\<close>,
  \<open>randn\<close>, the export) raised \<open>e\<close> and left \<open>w'\<close> after the steps before it had
  succeeded: the exception is the one raised, the world is as the raising step left it (no
  cleanup of the output path), and every step was called once (no retry).
\<close>

theorem exceptions_propagate:
  "convert_to_onnx T pt out s w = (Inl e, w', cs) \<longleftrightarrow>
     (torch_load T pt ''cpu'' w = (Inl e, w') \<and> cs = [TorchLoad pt ''cpu''])
   \<or> (\<exists>obj. torch_load T pt ''cpu'' w = (Inr obj, w') \<and> select_model obj = Inl e
         \<and> cs = [TorchLoad pt ''cpu''])
   \<or> (\<exists>obj w1 m. torch_load T pt ''cpu'' w = (Inr obj, w1) \<and> select_model obj = Inr m
         \<and> module_eval T m w1 = (Inl e, w')
         \<and> cs = [TorchLoad pt ''cpu'', ModuleEval m])
   \<or> (\<exists>obj w1 m m' w2. torch_load T pt ''cpu'' w = (Inr obj, w1) \<and> select_model obj = Inr m
         \<and> module_eval T m w1 = (Inr m', w2)
         \<and> torch_randn T [1, 3, s, s] w2 = (Inl e, w')
         \<and> cs = [TorchLoad pt ''cpu'', ModuleEval m, TorchRandn [1, 3, s, s]])
   \<or> (\<exists>obj w1 m m' w2 t w3. torch_load T pt ''cpu'' w = (Inr obj, w1) \<and> select_model obj = Inr m
         \<and> module_eval T m w1 = (Inr m', w2)
         \<and> torch_randn T [1, 3, s, s] w2 = (Inr t, w3)
         \<and> onnx_export T (export_call m' t out) w3 = (Inl e, w')
         \<and> cs = [TorchLoad pt ''cpu'', ModuleEval m, TorchRandn [1, 3, s, s],
                 OnnxExport (export_call m' t out)])"
  (is "?L \<longleftrightarrow> ?R")
proof
  assume L: ?L
  show ?R
  proof (cases rule: convert_to_onnx_cases
      [where T = T and pt = pt and w = w and s = s and out = out])
    case (load_fails e1 w1)
    from convert_load_raises [OF this, of out s] L
    have "e1 = e" "w1 = w'" "cs = [TorchLoad pt ''cpu'']" by simp_all
    with load_fails show ?thesis by simp
  next
    case (lookup_fails obj w1 e1)
    from convert_lookup_raises [OF this, of out s] L
    have "e1 = e" "w1 = w'" "cs = [TorchLoad pt ''cpu'']" by simp_all
    with lookup_fails show ?thesis by simp
  next
    case (eval_fails obj w1 m e1 w2)
    from convert_eval_raises [OF this, of out s] L
    have "e1 = e" "w2 = w'" "cs = [TorchLoad pt ''cpu'', ModuleEval m]" by simp_all
    with eval_fails show ?thesis by simp
  next
    case (randn_fails obj w1 m m' w2 e1 w3)
    from convert_randn_raises [OF this, of out] L
    have "e1 = e" "w3 = w'"
      "cs = [TorchLoad pt ''cpu'', ModuleEval m, TorchRandn [1, 3, s, s]]" by simp_all
    with randn_fails show ?thesis by simp
  next
    case (export_fails obj w1 m m' w2 t w3 e1 w4)
    from convert_export_raises [OF this] L
    have "e1 = e" "w4 = w'"
      "cs = [TorchLoad pt ''cpu'', ModuleEval m, TorchRandn [1, 3, s, s],
             OnnxExport (export_call m' t out)]" by simp_all
    with export_fails show ?thesis by simp
  next
    case (completes obj w1 m m' w2 t w3 w4)
    from convert_returns [OF this] L show ?thesis by simp
  qed
next
  assume ?R
  then show ?L
    by (elim disjE exE conjE)
      (simp_all add: convert_load_raises convert_lookup_raises convert_eval_raises
        convert_randn_raises convert_export_raises)
qed


theorem exceptions_propagate_witness:
  "convert_to_onnx sample_torch ''odd.pt'' ''out.onnx'' 640 w0 =
     (Inl (RuntimeError ''unsupported operator''),
      \<lparr>files = (map_of disk)(''out.onnx'' \<mapsto> Bytes ''truncated''),
       realpath = sample_realpath, stdout = [], rng = 1\<rparr>,
      [TorchLoad ''odd.pt'' ''cpu'', ModuleEval (PyModule ''unsupported'' True),
       TorchRandn [1, 3, 640, 640],
       OnnxExport (export_call (PyModule ''unsupported'' False) (Tensor [1, 3, 640, 640] 0)
         ''out.onnx'')])"
  by (rule exceptions_propagate [THEN iffD2])
    (simp add: sample_torch_def sample_library_def sample_load_def sample_eval_def
      sample_randn_def sample_export_def sample_realpath_def file_at_def w0_def disk_def)

subsection \<open>The checkpoint file\<close>

text \<open>
  Claim C8, as amended. With the library as the specification describes it, every call
  whose output path does not name the file the checkpoint path names leaves that file as
  it was. The object the run works on is the one \<open>load\<close> returns for \<open>map_location='cpu'\<close>:
  when that load raises, the run ends with its exception, and when it returns an object,
  the run is line 18 and the rest applied to that object. Switching to evaluation mode
  leaves the world, and so the checkpoint file, untouched: its effect is the new value of
  the model object.
\<close>

theorem checkpoint_file_kept:
  assumes "realpath w out \<noteq> realpath w pt"
  shows "file_at (world_of (convert_to_onnx (as_torch L) pt out s w)) pt = file_at w pt
       \<and> (\<forall>e. lib_load L pt ''cpu'' w = Inl e \<longrightarrow>
            convert_to_onnx (as_torch L) pt out s w = (Inl e, w, [TorchLoad pt ''cpu'']))
       \<and> (\<forall>obj. lib_load L pt ''cpu'' w = Inr obj \<longrightarrow>
            convert_to_onnx (as_torch L) pt out s w =
              after_call (TorchLoad pt ''cpu'')
                (case select_model obj of
                   Inl e \<Rightarrow> (Inl e, w, [])
                 | Inr m \<Rightarrow> export_model (as_torch L) m out s w))
       \<and> (\<forall>m w1. module_eval (as_torch L) m w1 = (lib_eval L m w1, w1))"
proof -
  have kept: "file_at (world_of (export_model (as_torch L) m out s w)) pt = file_at w pt" for m
    using assms
    by (simp add: export_model_def file_at_def print_def Let_def split: sum.splits)
  have "file_at (world_of (convert_to_onnx (as_torch L) pt out s w)) pt = file_at w pt"
  proof (cases "lib_load L pt ''cpu'' w")
    case (Inl e)
    then show ?thesis by (simp add: convert_to_onnx_def)
  next
    case (Inr obj)
    show ?thesis
    proof (cases "select_model obj")
      case (Inl e)
      with Inr show ?thesis by (simp add: convert_to_onnx_def)
    next
      case sel: (Inr m)
      with Inr kept [of m] show ?thesis by (simp add: convert_to_onnx_def)
    qed
  qed
  moreover have "\<forall>e. lib_load L pt ''cpu'' w = Inl e \<longrightarrow>
      convert_to_onnx (as_torch L) pt out s w = (Inl e, w, [TorchLoad pt ''cpu''])"
    by (simp add: convert_load_raises)
  moreover have "\<forall>obj. lib_load L pt ''cpu'' w = Inr obj \<longrightarrow>
      convert_to_onnx (as_torch L) pt out s w =
        after_call (TorchLoad pt ''cpu'')
          (case select_model obj of
             Inl e \<Rightarrow> (Inl e, w, [])
           | Inr m \<Rightarrow> export_model (as_torch L) m out s w)"
    by (simp add: convert_to_onnx_unfold)
  moreover have "\<forall>m w1. module_eval (as_torch L) m w1 = (lib_eval L m w1, w1)"
    by simp
  ultimately show ?thesis by (intro conjI)
qed

theorem checkpoint_file_kept_witness:
  "file_at (world_of (convert_to_onnx (as_torch sample_library) ''model.pt'' ''model.onnx'' 640 w0))
     ''model.pt'' = file_at w0 ''model.pt''
   \<and> convert_to_onnx (as_torch sample_library) ''none.pt'' ''model.onnx'' 640 w0 =
       (Inl (OSError ''none.pt''), w0, [TorchLoad ''none.pt'' ''cpu''])
   \<and> convert_to_onnx (as_torch sample_library) ''model.pt'' ''model.onnx'' 640 w0 =
       after_call (TorchLoad ''model.pt'' ''cpu'')
         (case select_model net of
            Inl e \<Rightarrow> (Inl e, w0, [])
          | Inr m \<Rightarrow> export_model (as_torch sample_library) m ''model.onnx'' 640 w0)"
proof -
  have a: "realpath w0 ''model.onnx'' \<noteq> realpath w0 ''model.pt''"
    by (simp add: w0_def sample_realpath_def)
  have b: "realpath w0 ''model.onnx'' \<noteq> realpath w0 ''none.pt''"
    by (simp add: w0_def sample_realpath_def)
  note kept = checkpoint_file_kept [OF a, of sample_library 640, THEN conjunct1]
  note absent = checkpoint_file_kept [OF b, of sample_library 640, THEN conjunct2,
      THEN conjunct1, rule_format, OF sample_load_absent]
  note loaded = checkpoint_file_kept [OF a, of sample_library 640, THEN conjunct2,
      THEN conjunct2, THEN conjunct1, rule_format, OF sample_lib_load_model]
  from kept absent loaded show ?thesis by (intro conjI)
qed

text \<open>
  Claim C8 as stated, for every call, does not hold: called with the checkpoint path as
  the output path, the sample run succeeds and the file at the checkpoint path is no
  longer the checkpoint.
\<close>

theorem checkpoint_overwritten_when_paths_coincide:
  "outcome (convert_to_onnx sample_torch ''model.pt'' ''model.pt'' 640 w0) = Inr ()
   \<and> file_at (world_of (convert_to_onnx sample_torch ''model.pt'' ''model.pt'' 640 w0))
       ''model.pt'' \<noteq> file_at w0 ''model.pt''"
proof -
  have "file_at w0 ''model.pt'' = Some (Pickled net)"
    by (simp add: file_at_def w0_def disk_def sample_realpath_def)
  then show ?thesis
    by (simp add: sample_run_bare file_at_def sample_realpath_def)
qed

end
